theory Spec2Isabelle
  imports Complex_Main "HOL-Library.AList"
begin

section \<open>Data model\<close>

text \<open>
  The agent (\<^verbatim>\<open>ppo_agent.py\<close>) works on Python dictionaries and lists of numbers.
  A metrics dictionary is a finite map from key names to numbers, Python's numbers
  (unbounded \<^verbatim>\<open>int\<close> and \<^verbatim>\<open>float\<close>) are read as reals, so the arithmetic below is exact:
  rounding to \<^verbatim>\<open>float32\<close>/\<^verbatim>\<open>float64\<close>, infinities, \<^verbatim>\<open>nan\<close> values of fields and the
  \<^verbatim>\<open>OverflowError\<close> of converting an integer beyond the range of a float are not part
  of the model.  A lookup \<^verbatim>\<open>d[k]\<close> of a
  missing key raises \<^verbatim>\<open>KeyError\<close>, \<^verbatim>\<open>d.get(k, v)\<close> returns the default.
\<close>

datatype py_error =
    KeyError string
  | ValueError
  | ZeroDivisionError
  | RuntimeError

type_synonym metrics = "string \<rightharpoonup> real"

definition dict_get :: "('k \<rightharpoonup> 'v) \<Rightarrow> 'k \<Rightarrow> 'v \<Rightarrow> 'v" where
  "dict_get d k v = (case d k of None \<Rightarrow> v | Some x \<Rightarrow> x)"

definition dict_item :: "(string \<rightharpoonup> 'v) \<Rightarrow> string \<Rightarrow> py_error + 'v" where
  "dict_item d k = (case d k of None \<Rightarrow> Inl (KeyError k) | Some x \<Rightarrow> Inr x)"

text \<open>
  The configuration dictionary \<^verbatim>\<open>config\<close>.  \<^verbatim>\<open>PPOAgent.__init__\<close> reads \<^verbatim>\<open>gamma\<close> and
  \<^verbatim>\<open>epochs\<close> (an agent exists only if they were present); \<^verbatim>\<open>batch_size\<close>,
  \<^verbatim>\<open>reward_weights\<close> and \<^verbatim>\<open>update_interval\<close> are looked up when they are used, so they
  may be missing.  The keys that only reach the network library
  (\<^verbatim>\<open>hidden_layers\<close>, \<^verbatim>\<open>learning_rate\<close>, \<^verbatim>\<open>epsilon_clip\<close>, \<^verbatim>\<open>entropy_coefficient\<close>) are
  part of the gradient step, which is a parameter of \<open>update\<close> below.
\<close>

record config =
  cfg_gamma :: real
  cfg_epochs :: int
  cfg_batch_size :: "int option"
  cfg_reward_weights :: "(string \<rightharpoonup> real) option"
  cfg_update_interval :: "int option"

text \<open>
  The experience buffer: a dictionary of six lists.  The list under the key
  \<^verbatim>\<open>values\<close> is the field \<open>vals\<close> (the word is reserved in Isabelle).
\<close>

record buffer =
  states :: "real list list"
  actions :: "int list"
  rewards :: "real list"
  log_probs :: "real list"
  vals :: "real list"
  dones :: "bool list"

definition empty_buffer :: buffer where
  "empty_buffer =
     \<lparr>states = [], actions = [], rewards = [], log_probs = [], vals = [], dones = []\<rparr>"

text \<open>
  The agent.  \<open>policy\<close> stands for the network parameters together with the optimizer
  state, the two things \<^verbatim>\<open>save_model\<close> writes.
\<close>

record 'p agent =
  config :: config
  policy :: 'p
  gamma :: real
  epochs :: int
  buffer :: buffer

definition init_agent :: "config \<Rightarrow> 'p \<Rightarrow> 'p agent" where
  "init_agent cfg p0 =
     \<lparr>config = cfg, policy = p0, gamma = cfg_gamma cfg, epochs = cfg_epochs cfg,
      buffer = empty_buffer\<rparr>"

section \<open>State encoder\<close>

definition get_state_vector :: "metrics \<Rightarrow> real list" where
  "get_state_vector m =
     [dict_get m ''coverage_rate'' 0,
      dict_get m ''crash_count'' 0 / 100,
      dict_get m ''exec_speed'' 0 / 1000,
      dict_get m ''queue_size'' 0 / 1000,
      dict_get m ''unique_paths'' 0 / 10000]"

section \<open>Reward\<close>

text \<open>
  \<^verbatim>\<open>PPOAgent.compute_reward\<close>: the lookups happen in the order of the source, and the
  first missing key is the one the \<^verbatim>\<open>KeyError\<close> names.
\<close>

definition compute_reward :: "config \<Rightarrow> metrics \<Rightarrow> metrics \<Rightarrow> py_error + real" where
  "compute_reward cfg prev_metrics curr_metrics =
     (case cfg_reward_weights cfg of
        None \<Rightarrow> Inl (KeyError ''reward_weights'')
      | Some weights \<Rightarrow>
     (case dict_item curr_metrics ''coverage_rate'' of Inl e \<Rightarrow> Inl e | Inr c_cov \<Rightarrow>
      let coverage_delta = c_cov - dict_get prev_metrics ''coverage_rate'' 0 in
     (case dict_item weights ''coverage_increase'' of Inl e \<Rightarrow> Inl e | Inr w_cov \<Rightarrow>
      let coverage_reward = w_cov * coverage_delta in
     (case dict_item curr_metrics ''crash_count'' of Inl e \<Rightarrow> Inl e | Inr c_crash \<Rightarrow>
      let crash_delta = c_crash - dict_get prev_metrics ''crash_count'' 0 in
     (case dict_item weights ''unique_crash'' of Inl e \<Rightarrow> Inl e | Inr w_crash \<Rightarrow>
      let crash_reward = w_crash * crash_delta in
     (case dict_item weights ''execution_speed'' of Inl e \<Rightarrow> Inl e | Inr w_speed \<Rightarrow>
     (case dict_item curr_metrics ''exec_speed'' of Inl e \<Rightarrow> Inl e | Inr c_speed \<Rightarrow>
      let speed_reward = w_speed * (c_speed / 1000) in
     (case dict_item curr_metrics ''unique_paths'' of Inl e \<Rightarrow> Inl e | Inr c_paths \<Rightarrow>
      let path_delta = c_paths - dict_get prev_metrics ''unique_paths'' 0 in
     (case dict_item weights ''path_diversity'' of Inl e \<Rightarrow> Inl e | Inr w_path \<Rightarrow>
      let path_reward = w_path * (path_delta / 100) in
      Inr (coverage_reward + crash_reward + speed_reward + path_reward))))))))))"

text \<open>
  \<^verbatim>\<open>FeedbackAnalyzer._calculate_reward\<close>, the monitoring variant with fixed weights and
  the stagnation penalty.  It indexes both dictionaries.
\<close>

definition calculate_reward :: "metrics \<Rightarrow> metrics \<Rightarrow> py_error + real" where
  "calculate_reward prv cur =
     (case dict_item cur ''coverage_rate'' of Inl e \<Rightarrow> Inl e | Inr c_cov \<Rightarrow>
     (case dict_item prv ''coverage_rate'' of Inl e \<Rightarrow> Inl e | Inr p_cov \<Rightarrow>
      let coverage_delta = c_cov - p_cov;
          reward1 = 0 + coverage_delta * 1 in
     (case dict_item cur ''crash_count'' of Inl e \<Rightarrow> Inl e | Inr c_crash \<Rightarrow>
     (case dict_item prv ''crash_count'' of Inl e \<Rightarrow> Inl e | Inr p_crash \<Rightarrow>
      let crash_delta = c_crash - p_crash;
          reward2 = reward1 + crash_delta * 10 in
     (case dict_item cur ''exec_speed'' of Inl e \<Rightarrow> Inl e | Inr c_speed \<Rightarrow>
      let speed_reward = (c_speed / 100) * (1 / 10);
          reward3 = reward2 + speed_reward in
     (case dict_item cur ''unique_paths'' of Inl e \<Rightarrow> Inl e | Inr c_paths \<Rightarrow>
     (case dict_item prv ''unique_paths'' of Inl e \<Rightarrow> Inl e | Inr p_paths \<Rightarrow>
      let path_delta = c_paths - p_paths;
          reward4 = reward3 + (path_delta / 100) * (1 / 2) in
      Inr (if coverage_delta = 0 \<and> path_delta = 0 then reward4 - 1 / 10 else reward4))))))))"

section \<open>Trajectory buffer\<close>

definition store_transition ::
  "buffer \<Rightarrow> real list \<Rightarrow> int \<Rightarrow> real \<Rightarrow> real \<Rightarrow> real \<Rightarrow> bool \<Rightarrow> buffer" where
  "store_transition b state action reward log_prob val done =
     \<lparr>states = states b @ [state], actions = actions b @ [action],
      rewards = rewards b @ [reward], log_probs = log_probs b @ [log_prob],
      vals = vals b @ [val], dones = dones b @ [done]\<rparr>"

definition clear_buffer :: "buffer \<Rightarrow> buffer" where
  "clear_buffer b =
     \<lparr>states = [], actions = [], rewards = [], log_probs = [], vals = [], dones = []\<rparr>"

section \<open>Discounted returns\<close>

text \<open>
  \<^verbatim>\<open>_compute_returns\<close>: one pass over \<^verbatim>\<open>zip(reversed(rewards), reversed(dones))\<close> with the
  running value \<open>R\<close> and the list built by \<^verbatim>\<open>returns.insert(0, R)\<close>.
\<close>

fun returns_loop :: "real \<Rightarrow> (real \<times> bool) list \<Rightarrow> real \<Rightarrow> real list \<Rightarrow> real list" where
  "returns_loop g [] R returns = returns"
| "returns_loop g ((reward, done) # rest) R returns =
     (let R0 = (if done then 0 else R);
          R1 = reward + g * R0
      in returns_loop g rest R1 (R1 # returns))"

definition compute_returns :: "real \<Rightarrow> real list \<Rightarrow> bool list \<Rightarrow> real list" where
  "compute_returns g rs ds = returns_loop g (zip (rev rs) (rev ds)) 0 []"

text \<open>
  The recursion as the specification words it, from the last index down: the return at
  an index is the reward there plus the discounted return of the next index, where the
  carried value is 0 past the end and after a terminal flag.
\<close>

fun spec_returns :: "real \<Rightarrow> real list \<Rightarrow> bool list \<Rightarrow> real list" where
  "spec_returns g (r # rs) (d # ds) =
     (let rest = spec_returns g rs ds;
          carried = (case rest of [] \<Rightarrow> 0 | R # _ \<Rightarrow> R)
      in (r + g * (if d then 0 else carried)) # rest)"
| "spec_returns g _ _ = []"

section \<open>Advantage standardization\<close>

text \<open>
  The tensor operations the update applies to the advantages, on lists of reals.
  \<^verbatim>\<open>returns - values\<close> is elementwise on tensors of one length, broadcasts a
  one-element tensor and raises otherwise.  \<^verbatim>\<open>mean()\<close> of an empty tensor and \<^verbatim>\<open>std()\<close>
  (the unbiased estimator, dividing by \<open>n - 1\<close>) of a tensor with fewer than two
  elements are \<^verbatim>\<open>nan\<close>, written \<open>None\<close> here.
\<close>

definition tensor_sub :: "real list \<Rightarrow> real list \<Rightarrow> py_error + real list" where
  "tensor_sub xs ys =
     (if length xs = length ys then Inr (map2 (-) xs ys)
      else if length ys = 1 then Inr (map (\<lambda>x. x - hd ys) xs)
      else if length xs = 1 then Inr (map (\<lambda>y. hd xs - y) ys)
      else Inl RuntimeError)"

definition tensor_mean :: "real list \<Rightarrow> real option" where
  "tensor_mean xs = (if xs = [] then None else Some (sum_list xs / real (length xs)))"

definition tensor_std :: "real list \<Rightarrow> real option" where
  "tensor_std xs =
     (if length xs < 2 then None
      else Some (sqrt (sum_list (map (\<lambda>x. (x - sum_list xs / real (length xs))\<^sup>2) xs)
                        / real (length xs - 1))))"

definition adv_eps :: real where
  "adv_eps = 1 / 10 ^ 8"

definition standardize :: "real list \<Rightarrow> real option list" where
  "standardize adv =
     (case tensor_mean adv of
        None \<Rightarrow> map (\<lambda>a. None) adv
      | Some m \<Rightarrow>
          (case tensor_std adv of
             None \<Rightarrow> map (\<lambda>a. None) adv
           | Some s \<Rightarrow> map (\<lambda>a. Some ((a - m) / (s + adv_eps))) adv))"

section \<open>Policy update\<close>

text \<open>
  What one epoch of the loop in \<^verbatim>\<open>update\<close> reads: the tensors built from the buffer.
  The epoch itself (forward pass, clipped surrogate loss, backward pass, gradient
  clipping, optimizer step) belongs to the network library and is the parameter
  \<open>step\<close>: from the parameters and the batch it gives the parameters it leaves behind
  and either the loss of the epoch or the exception it raised.
\<close>

record batch =
  b_states :: "real list list"
  b_actions :: "int list"
  b_old_log_probs :: "real list"
  b_returns :: "real list"
  b_advantages :: "real option list"

type_synonym 'p step = "'p \<Rightarrow> batch \<Rightarrow> 'p \<times> (py_error + real)"

fun epoch_loop :: "'p step \<Rightarrow> nat \<Rightarrow> batch \<Rightarrow> 'p \<Rightarrow> real \<Rightarrow> 'p \<times> (py_error + real)" where
  "epoch_loop step 0 bt p total_loss = (p, Inr total_loss)"
| "epoch_loop step (Suc n) bt p total_loss =
     (case step p bt of
        (p', Inl e) \<Rightarrow> (p', Inl e)
      | (p', Inr loss) \<Rightarrow> epoch_loop step n bt p' (total_loss + loss))"

text \<open>
  \<^verbatim>\<open>PPOAgent.update\<close> returns the agent as the call leaves it, with the loss or the
  exception.  \<^verbatim>\<open>range(self.epochs)\<close> is empty for \<open>epochs \<le> 0\<close>; the buffer is cleared
  before the division by \<^verbatim>\<open>self.epochs\<close>.
\<close>

definition make_batch :: "buffer \<Rightarrow> real list \<Rightarrow> real list \<Rightarrow> batch" where
  "make_batch b returns advantages =
     \<lparr>b_states = states b, b_actions = actions b, b_old_log_probs = log_probs b,
      b_returns = returns, b_advantages = standardize advantages\<rparr>"

definition update :: "'p step \<Rightarrow> 'p agent \<Rightarrow> 'p agent \<times> (py_error + real)" where
  "update step a =
     (case cfg_batch_size (config a) of
        None \<Rightarrow> (a, Inl (KeyError ''batch_size''))
      | Some bs \<Rightarrow>
          if int (length (states (buffer a))) < bs then (a, Inr 0)
          else
            let returns = compute_returns (gamma a) (rewards (buffer a)) (dones (buffer a)) in
            (case tensor_sub returns (vals (buffer a)) of
               Inl e \<Rightarrow> (a, Inl e)
             | Inr advantages \<Rightarrow>
                 (case epoch_loop step (nat (epochs a))
                         (make_batch (buffer a) returns advantages) (policy a) 0 of
                    (p', Inl e) \<Rightarrow> (a\<lparr>policy := p'\<rparr>, Inl e)
                  | (p', Inr total_loss) \<Rightarrow>
                      let a' = a\<lparr>policy := p', buffer := clear_buffer (buffer a)\<rparr> in
                      if epochs a = 0 then (a', Inl ZeroDivisionError)
                      else (a', Inr (total_loss / real_of_int (epochs a))))))"

text \<open>The losses of the successive epochs, for stating what \<open>update\<close> returns.\<close>

fun epoch_losses :: "'p step \<Rightarrow> nat \<Rightarrow> batch \<Rightarrow> 'p \<Rightarrow> real list" where
  "epoch_losses step 0 bt p = []"
| "epoch_losses step (Suc n) bt p =
     (case step p bt of
        (p', Inl e) \<Rightarrow> []
      | (p', Inr loss) \<Rightarrow> loss # epoch_losses step n bt p')"

definition buffer_ok :: "buffer \<Rightarrow> bool" where
  "buffer_ok b \<longleftrightarrow>
     length (actions b) = length (states b) \<and> length (rewards b) = length (states b) \<and>
     length (log_probs b) = length (states b) \<and> length (vals b) = length (states b) \<and>
     length (dones b) = length (states b)"

text \<open>
  The \<^verbatim>\<open>finally\<close> block of \<^verbatim>\<open>run_ppo_enhanced\<close>, up to the checkpoint: the final update.
  The result is \<open>None\<close> when \<^verbatim>\<open>update\<close> was not called.
\<close>

definition final_update :: "'p step \<Rightarrow> 'p agent \<Rightarrow> 'p agent \<times> (py_error + real option)" where
  "final_update step a =
     (if length (states (buffer a)) > 0
      then (case update step a of
              (a', Inl e) \<Rightarrow> (a', Inl e)
            | (a', Inr loss) \<Rightarrow> (a', Inr (Some loss)))
      else (a, Inr None))"

section \<open>Telemetry\<close>

text \<open>
  The statistics file as \<^verbatim>\<open>AFLWrapper.get_stats\<close> meets it: absent (no path set, or no
  file at the path), or a sequence of lines.  A line with a colon is given by its key
  and its value, split at the first colon and stripped, in file order.  \<open>ReadFails\<close>
  holds the lines read before \<^verbatim>\<open>open\<close> or the iteration raised (none when \<^verbatim>\<open>open\<close>
  raised): the exception is caught and the dictionary filled so far is returned.
\<close>

datatype stats_file =
    NoStatsFile
  | ReadFails "(string \<times> string) list"
  | ReadOk "(string \<times> string) list"

definition get_stats :: "stats_file \<Rightarrow> (string \<times> string) list" where
  "get_stats f =
     (case f of
        NoStatsFile \<Rightarrow> []
      | ReadFails kvs \<Rightarrow> fold (\<lambda>(k, v) stats. AList.update k v stats) kvs []
      | ReadOk kvs \<Rightarrow> fold (\<lambda>(k, v) stats. AList.update k v stats) kvs [])"

definition make_metrics :: "real \<Rightarrow> int \<Rightarrow> real \<Rightarrow> int \<Rightarrow> int \<Rightarrow> int \<Rightarrow> int \<Rightarrow> metrics" where
  "make_metrics coverage crashes speed queue paths pending runtime =
     [''coverage_rate'' \<mapsto> coverage, ''crash_count'' \<mapsto> of_int crashes,
      ''exec_speed'' \<mapsto> speed, ''queue_size'' \<mapsto> of_int queue,
      ''unique_paths'' \<mapsto> of_int paths, ''pending_paths'' \<mapsto> of_int pending,
      ''runtime'' \<mapsto> of_int runtime]"

text \<open>
  Python's conversions \<^verbatim>\<open>int(s)\<close> and \<^verbatim>\<open>float(s)\<close> of a string are the parameters
  \<open>py_int\<close> and \<open>py_float\<close>: \<open>None\<close> where the conversion raises \<^verbatim>\<open>ValueError\<close>.
\<close>

definition rstrip_percent :: "string \<Rightarrow> string" where
  "rstrip_percent s = rev (dropWhile (\<lambda>c. c = CHR ''%'') (rev s))"

definition parse_coverage :: "(string \<Rightarrow> real option) \<Rightarrow> (string \<times> string) list \<Rightarrow> real" where
  "parse_coverage py_float stats =
     (let bitmap_cvg = (case map_of stats ''bitmap_cvg'' of None \<Rightarrow> ''0.00%'' | Some s \<Rightarrow> s)
      in case py_float (rstrip_percent bitmap_cvg) of None \<Rightarrow> 0 | Some v \<Rightarrow> v)"

definition stat_field ::
  "(string \<Rightarrow> 'a option) \<Rightarrow> (string \<times> string) list \<Rightarrow> string \<Rightarrow> 'a::zero \<Rightarrow> py_error + 'a" where
  "stat_field conv stats k dflt =
     (case map_of stats k of
        None \<Rightarrow> Inr dflt
      | Some s \<Rightarrow> (case conv s of None \<Rightarrow> Inl ValueError | Some v \<Rightarrow> Inr v))"

definition get_metrics ::
  "(string \<Rightarrow> int option) \<Rightarrow> (string \<Rightarrow> real option) \<Rightarrow> int \<Rightarrow> (string \<times> string) list
     \<Rightarrow> py_error + metrics" where
  "get_metrics py_int py_float runtime stats =
     (if stats = [] then Inr (make_metrics 0 0 0 0 0 0 0)
      else
        let coverage = parse_coverage py_float stats in
        (case stat_field py_int stats ''unique_crashes'' 0 of Inl e \<Rightarrow> Inl e | Inr crashes \<Rightarrow>
        (case stat_field py_float stats ''execs_per_sec'' 0 of Inl e \<Rightarrow> Inl e | Inr speed \<Rightarrow>
        (case stat_field py_int stats ''paths_total'' 0 of Inl e \<Rightarrow> Inl e | Inr queue \<Rightarrow>
        (case stat_field py_int stats ''paths_found'' 0 of Inl e \<Rightarrow> Inl e | Inr paths \<Rightarrow>
        (case stat_field py_int stats ''pending_total'' 0 of Inl e \<Rightarrow> Inl e | Inr pending \<Rightarrow>
           Inr (make_metrics coverage crashes speed queue paths pending runtime)))))))"

section \<open>Control loop\<close>

text \<open>
  One pass through the body of the \<^verbatim>\<open>while\<close> loop of \<^verbatim>\<open>run_ppo_enhanced\<close>, after the
  sleep.  The loop's variables are the state; the inputs are the statistics file at that
  moment, the fuzzer's runtime, and the time elapsed since the start when \<open>done\<close> is
  computed.  \<open>select\<close> is \<^verbatim>\<open>select_action\<close>, the sampling from the network's
  distribution.  An exception leaves the loop: the result carries it with the state as
  it was then.  Recording and printing the metrics and \<^verbatim>\<open>apply_mutation_strategy\<close> (a
  print) write output only and are left out.
\<close>

record 'p loop_state =
  ppo :: "'p agent"
  prev_metrics :: "metrics option"
  ppo_update_counter :: int

definition tick ::
  "('p \<Rightarrow> real list \<Rightarrow> int \<times> real \<times> real) \<Rightarrow> 'p step \<Rightarrow>
   (string \<Rightarrow> int option) \<Rightarrow> (string \<Rightarrow> real option) \<Rightarrow>
   stats_file \<Rightarrow> int \<Rightarrow> real \<Rightarrow> int \<Rightarrow> 'p loop_state \<Rightarrow> 'p loop_state \<times> py_error option" where
  "tick select step py_int py_float f runtime elapsed duration ls =
     (case get_metrics py_int py_float runtime (get_stats f) of
        Inl e \<Rightarrow> (ls, Some e)
      | Inr curr_metrics \<Rightarrow>
          (case prev_metrics ls of
             None \<Rightarrow> (ls\<lparr>prev_metrics := Some curr_metrics\<rparr>, None)
           | Some prev \<Rightarrow>
               let state = get_state_vector curr_metrics;
                   (action, log_prob, val) = select (policy (ppo ls)) state
               in
               (case compute_reward (config (ppo ls)) prev curr_metrics of
                  Inl e \<Rightarrow> (ls, Some e)
                | Inr reward \<Rightarrow>
                    let done = (real_of_int duration \<le> elapsed);
                        ppo1 = (ppo ls)\<lparr>buffer :=
                                 store_transition (buffer (ppo ls)) state action reward
                                   log_prob val done\<rparr>;
                        ls1 = ls\<lparr>ppo := ppo1,
                                 ppo_update_counter := ppo_update_counter ls + 1\<rparr>
                    in
                    (case cfg_update_interval (config ppo1) of
                       None \<Rightarrow> (ls1, Some (KeyError ''update_interval''))
                     | Some interval \<Rightarrow>
                         if interval \<le> ppo_update_counter ls1
                         then (case update step ppo1 of
                                 (ppo2, Inl e) \<Rightarrow> (ls1\<lparr>ppo := ppo2\<rparr>, Some e)
                               | (ppo2, Inr loss) \<Rightarrow>
                                   (ls1\<lparr>ppo := ppo2, ppo_update_counter := 0,
                                        prev_metrics := Some curr_metrics\<rparr>, None))
                         else (ls1\<lparr>prev_metrics := Some curr_metrics\<rparr>, None)))))"

section \<open>Sample inputs\<close>

text \<open>Concrete inputs on which the theorems below are evaluated.\<close>

definition example_config :: config where
  "example_config =
     \<lparr>cfg_gamma = 99 / 100, cfg_epochs = 4, cfg_batch_size = Some 2,
      cfg_reward_weights =
        Some [''coverage_increase'' \<mapsto> 1, ''unique_crash'' \<mapsto> 10,
              ''execution_speed'' \<mapsto> 1 / 10, ''path_diversity'' \<mapsto> 1 / 2],
      cfg_update_interval = Some 10\<rparr>"

definition example_prev :: metrics where
  "example_prev = make_metrics 50 2 1000 10 300 5 60"

definition example_curr :: metrics where
  "example_curr = make_metrics 55 3 2000 12 400 6 120"

definition example_select :: "nat \<Rightarrow> real list \<Rightarrow> int \<times> real \<times> real" where
  "example_select p state = (3, - 1, 0)"

definition example_step :: "nat step" where
  "example_step p bt = (p + 1, Inr (real p))"

definition one_transition :: "nat agent" where
  "one_transition =
     (init_agent example_config 0)\<lparr>buffer :=
        store_transition empty_buffer [55, 3 / 100, 2, 12 / 1000, 4 / 100] 3 (157 / 10)
          (- 1) 0 False\<rparr>"

definition two_transitions :: "nat agent" where
  "two_transitions =
     one_transition\<lparr>buffer :=
        store_transition (buffer one_transition) [55, 3 / 100, 2, 12 / 1000, 4 / 100] 1
          (1 / 10) (- 2) 0 True\<rparr>"

definition no_conversion :: "string \<Rightarrow> 'a option" where
  "no_conversion s = None"

definition example_loop_state :: "nat loop_state" where
  "example_loop_state =
     \<lparr>ppo = init_agent example_config 0, prev_metrics = Some example_prev,
      ppo_update_counter = 0\<rparr>"



definition failing_step :: "nat step" where
  "failing_step p bt = (p, Inl ValueError)"

definition zero_epochs :: "nat agent" where
  "zero_epochs =
     (init_agent (example_config\<lparr>cfg_epochs := 0\<rparr>) 0)\<lparr>buffer := buffer two_transitions\<rparr>"


section \<open>Lookups\<close>

lemma dict_item_Some: "d k = Some x \<Longrightarrow> dict_item d k = Inr x"
  by (simp add: dict_item_def)

lemma dict_get_filled: "dict_get (\<lambda>k. Some (dict_get d k v)) k' v = dict_get d k' v"
  by (simp add: dict_get_def)

section \<open>Discounted returns follow the backward recursion\<close>

text \<open>
  The loop has consumed the pairs \<open>qs\<close> at the end of the buffer and now walks the pairs
  \<open>ps\<close> before them, last first; its list is the specification's on \<open>qs\<close> and \<open>R\<close> is
  that list's head.
\<close>

lemma returns_loop_spec:
  assumes "R = (case spec_returns g (map fst qs) (map snd qs) of [] \<Rightarrow> 0 | x # _ \<Rightarrow> x)"
  shows "returns_loop g (rev ps) R (spec_returns g (map fst qs) (map snd qs))
           = spec_returns g (map fst (ps @ qs)) (map snd (ps @ qs))"
  using assms
proof (induction ps arbitrary: qs R rule: rev_induct)
  case Nil
  then show ?case by simp
next
  case (snoc p ps)
  obtain r d where p: "p = (r, d)" by (cases p)
  let ?acc = "spec_returns g (map fst qs) (map snd qs)"
  let ?R1 = "r + g * (if d then 0 else R)"
  have acc': "?R1 # ?acc = spec_returns g (map fst (p # qs)) (map snd (p # qs))"
    using snoc.prems by (simp add: p Let_def)
  have "returns_loop g (rev (ps @ [p])) R ?acc = returns_loop g (rev ps) ?R1 (?R1 # ?acc)"
    by (simp add: p Let_def)
  also have "\<dots> = spec_returns g (map fst (ps @ p # qs)) (map snd (ps @ p # qs))"
    unfolding acc' by (rule snoc.IH) (simp add: p Let_def snoc.prems)
  finally show ?case by simp
qed

lemma compute_returns_spec:
  assumes "length rs = length ds"
  shows "compute_returns g rs ds = spec_returns g rs ds"
proof -
  have "compute_returns g rs ds = returns_loop g (rev (zip rs ds)) 0 []"
    using assms by (simp add: compute_returns_def zip_rev)
  also have "\<dots> = spec_returns g (map fst (zip rs ds @ [])) (map snd (zip rs ds @ []))"
    using returns_loop_spec [of 0 g "[]" "zip rs ds"] by simp
  finally show ?thesis using assms by simp
qed

lemma length_spec_returns: "length (spec_returns g rs ds) = min (length rs) (length ds)"
  by (induction g rs ds rule: spec_returns.induct) (simp_all add: Let_def)

lemma spec_returns_nth:
  assumes "length rs = length ds" and "i < length rs"
  shows "spec_returns g rs ds ! i =
           rs ! i + g * (if ds ! i then 0
                         else if Suc i < length rs then spec_returns g rs ds ! Suc i else 0)"
  using assms
proof (induction g rs ds arbitrary: i rule: spec_returns.induct)
  case (1 g r rs d ds)
  show ?case
  proof (cases i)
    case 0
    have "length (spec_returns g rs ds) = length rs"
      using "1.prems" by (simp add: length_spec_returns)
    then show ?thesis
      using 0 by (cases "spec_returns g rs ds") (auto simp add: Let_def)
  next
    case (Suc j)
    then show ?thesis
      using "1.IH" [of j] "1.prems" by (simp add: Let_def)
  qed
qed simp_all

text \<open>
  Claim C4.  For rewards and done flags of equal length \<open>N\<close> and every discount, the
  list \<^verbatim>\<open>_compute_returns\<close> builds is the one of the backward recursion: it has \<open>N\<close>
  entries, and the entry at \<open>i\<close> is the reward at \<open>i\<close> plus the discount times the carried
  value, which is 0 when \<open>dones[i]\<close> holds or \<open>i\<close> is the last index and the entry at
  \<open>i + 1\<close> otherwise.  Rewards \<open>[1, 1, 1]\<close> with discount \<open>1/2\<close> and flags
  \<open>[False, False, True]\<close> give \<open>[1.75, 1.5, 1]\<close>.
\<close>

theorem compute_returns_recursion:
  assumes "length rs = length ds"
  shows "compute_returns g rs ds = spec_returns g rs ds
       \<and> length (compute_returns g rs ds) = length rs
       \<and> (\<forall>i < length rs.
            compute_returns g rs ds ! i =
              rs ! i + g * (if ds ! i then 0
                            else if Suc i < length rs then compute_returns g rs ds ! Suc i
                            else 0))
       \<and> compute_returns (1 / 2) [1, 1, 1] [False, False, True] = [7 / 4, 3 / 2, 1]"
proof -
  have eq: "compute_returns g rs ds = spec_returns g rs ds"
    using assms by (rule compute_returns_spec)
  have len: "length (spec_returns g rs ds) = length rs"
    using assms by (simp add: length_spec_returns)
  have ex: "compute_returns (1 / 2) [1, 1, 1] [False, False, True] = [7 / 4, 3 / 2, 1]"
    by (simp add: compute_returns_def)
  show ?thesis
    unfolding eq using len spec_returns_nth [OF assms, of _ g] ex by simp
qed

theorem compute_returns_recursion_witness:
  "length [2, 0, 4 :: real] = length [False, True, False]
   \<and> compute_returns (1 / 2) [2, 0, 4] [False, True, False] = [2, 0, 4]
   \<and> compute_returns (1 / 2) [2, 0, 4] [False, True, False] ! 0
       = [2, 0, 4] ! 0 + (1 / 2) * compute_returns (1 / 2) [2, 0, 4] [False, True, False] ! 1"
  using compute_returns_recursion [of "[2, 0, 4]" "[False, True, False]" "1 / 2"]
  by (simp add: compute_returns_def)

section \<open>The reward\<close>

text \<open>
  Claim C3.  With the four weights configured and the four fields present in the current
  snapshot, the training reward is the weighted sum
  \<open>coverage_increase * coverage delta + unique_crash * crash delta +
  execution_speed * (exec_speed / 1000) + path_diversity * (path delta / 100)\<close>
  and nothing else.  When the coverage delta and the path delta are both zero, the
  training reward is still only the crash and speed terms, while the analyzer's variant
  subtracts \<open>0.1\<close>.
\<close>

theorem compute_reward_weighted_sum:
  assumes "cfg_reward_weights cfg = Some w"
    and "w ''coverage_increase'' = Some w_cov" and "w ''unique_crash'' = Some w_crash"
    and "w ''execution_speed'' = Some w_speed" and "w ''path_diversity'' = Some w_path"
    and "cur ''coverage_rate'' = Some c_cov" and "cur ''crash_count'' = Some c_crash"
    and "cur ''exec_speed'' = Some c_speed" and "cur ''unique_paths'' = Some c_paths"
  shows "compute_reward cfg prv cur =
           Inr (w_cov * (c_cov - dict_get prv ''coverage_rate'' 0)
              + w_crash * (c_crash - dict_get prv ''crash_count'' 0)
              + w_speed * (c_speed / 1000)
              + w_path * ((c_paths - dict_get prv ''unique_paths'' 0) / 100))
       \<and> (prv ''coverage_rate'' = Some c_cov \<and> prv ''unique_paths'' = Some c_paths
            \<and> prv ''crash_count'' = Some p_crash \<longrightarrow>
            compute_reward cfg prv cur =
              Inr (w_crash * (c_crash - p_crash) + w_speed * (c_speed / 1000))
          \<and> calculate_reward prv cur =
              Inr ((c_crash - p_crash) * 10 + (c_speed / 100) * (1 / 10) - 1 / 10))"
  using assms
  by (simp add: compute_reward_def calculate_reward_def dict_item_Some dict_get_def)

theorem compute_reward_weighted_sum_witness:
  "compute_reward example_config example_prev example_curr = Inr (157 / 10)
   \<and> compute_reward example_config example_prev example_prev = Inr (1 / 10)
   \<and> calculate_reward example_prev example_prev = Inr (9 / 10)"
  using compute_reward_weighted_sum [of example_config
      "[''coverage_increase'' \<mapsto> 1, ''unique_crash'' \<mapsto> 10,
        ''execution_speed'' \<mapsto> 1 / 10, ''path_diversity'' \<mapsto> 1 / 2]"
      1 10 "1 / 10" "1 / 2" example_curr 55 3 2000 400 example_prev 2]
    compute_reward_weighted_sum [of example_config
      "[''coverage_increase'' \<mapsto> 1, ''unique_crash'' \<mapsto> 10,
        ''execution_speed'' \<mapsto> 1 / 10, ''path_diversity'' \<mapsto> 1 / 2]"
      1 10 "1 / 10" "1 / 2" example_prev 50 2 1000 300 example_prev 2]
  by (simp add: example_config_def example_prev_def example_curr_def make_metrics_def
      dict_get_def)

text \<open>
  Claim C10.  \<^verbatim>\<open>compute_reward\<close> reads the previous snapshot only through defaults: the
  call is the same as with every missing field of \<open>prv\<close> filled with 0, and with the
  weights configured it returns a value for every \<open>prv\<close> once the current snapshot has its
  four fields.  When the current snapshot lacks one of \<open>coverage_rate\<close>, \<open>crash_count\<close>,
  \<open>exec_speed\<close>, \<open>unique_paths\<close>, the call raises \<^verbatim>\<open>KeyError\<close>.
\<close>

theorem compute_reward_partial:
  "compute_reward cfg prv cur = compute_reward cfg (\<lambda>k. Some (dict_get prv k 0)) cur
   \<and> (cfg_reward_weights cfg = Some w
        \<and> w ''coverage_increase'' \<noteq> None \<and> w ''unique_crash'' \<noteq> None
        \<and> w ''execution_speed'' \<noteq> None \<and> w ''path_diversity'' \<noteq> None
        \<and> cur ''coverage_rate'' \<noteq> None \<and> cur ''crash_count'' \<noteq> None
        \<and> cur ''exec_speed'' \<noteq> None \<and> cur ''unique_paths'' \<noteq> None
        \<longrightarrow> (\<exists>r. compute_reward cfg prv cur = Inr r))
   \<and> (cur ''coverage_rate'' = None \<or> cur ''crash_count'' = None
        \<or> cur ''exec_speed'' = None \<or> cur ''unique_paths'' = None
        \<longrightarrow> (\<exists>key. compute_reward cfg prv cur = Inl (KeyError key)))"
proof (intro conjI impI)
  show "compute_reward cfg prv cur = compute_reward cfg (\<lambda>k. Some (dict_get prv k 0)) cur"
    unfolding compute_reward_def dict_get_filled ..
next
  assume "cfg_reward_weights cfg = Some w
        \<and> w ''coverage_increase'' \<noteq> None \<and> w ''unique_crash'' \<noteq> None
        \<and> w ''execution_speed'' \<noteq> None \<and> w ''path_diversity'' \<noteq> None
        \<and> cur ''coverage_rate'' \<noteq> None \<and> cur ''crash_count'' \<noteq> None
        \<and> cur ''exec_speed'' \<noteq> None \<and> cur ''unique_paths'' \<noteq> None"
  then show "\<exists>r. compute_reward cfg prv cur = Inr r"
    by (auto simp add: compute_reward_def dict_item_def)
next
  assume "cur ''coverage_rate'' = None \<or> cur ''crash_count'' = None
        \<or> cur ''exec_speed'' = None \<or> cur ''unique_paths'' = None"
  then show "\<exists>key. compute_reward cfg prv cur = Inl (KeyError key)"
    by (auto simp add: compute_reward_def dict_item_def split: option.splits)
qed

theorem compute_reward_partial_witness:
  "compute_reward example_config Map.empty example_curr = Inr (436 / 5)
   \<and> compute_reward example_config example_prev Map.empty = Inl (KeyError ''coverage_rate'')
   \<and> compute_reward example_config example_prev
        (example_curr(''unique_paths'' := None)) = Inl (KeyError ''unique_paths'')"
  using compute_reward_partial [of example_config Map.empty example_curr
      "[''coverage_increase'' \<mapsto> 1, ''unique_crash'' \<mapsto> 10,
        ''execution_speed'' \<mapsto> 1 / 10, ''path_diversity'' \<mapsto> 1 / 2]"]
    compute_reward_partial [of example_config example_prev Map.empty]
  by (simp add: compute_reward_def example_config_def example_prev_def example_curr_def
      make_metrics_def dict_get_def dict_item_def)

section \<open>The state encoder\<close>

text \<open>
  Claim C5, as the code has it.  For a snapshot whose fields are numbers in the range
  of a float, the encoder returns the five components
  \<open>[coverage_rate, crash_count/100, exec_speed/1000, queue_size/1000, unique_paths/10000]\<close>
  with 0 for a missing field.  Nothing is clamped: each component is its field divided
  by its constant, and no component is negative when none of the five fields is.  The
  fields are reals here, so nothing is said about an integer beyond the range of a
  float, on which the conversion raises \<^verbatim>\<open>OverflowError\<close>, nor about rounding to
  \<^verbatim>\<open>float32\<close>.
\<close>

theorem get_state_vector_components:
  "get_state_vector m =
     [dict_get m ''coverage_rate'' 0, dict_get m ''crash_count'' 0 / 100,
      dict_get m ''exec_speed'' 0 / 1000, dict_get m ''queue_size'' 0 / 1000,
      dict_get m ''unique_paths'' 0 / 10000]
   \<and> length (get_state_vector m) = 5
   \<and> get_state_vector Map.empty = [0, 0, 0, 0, 0]
   \<and> (0 \<le> dict_get m ''coverage_rate'' 0 \<and> 0 \<le> dict_get m ''crash_count'' 0
        \<and> 0 \<le> dict_get m ''exec_speed'' 0 \<and> 0 \<le> dict_get m ''queue_size'' 0
        \<and> 0 \<le> dict_get m ''unique_paths'' 0
        \<longrightarrow> list_all (\<lambda>x. 0 \<le> x) (get_state_vector m))"
  by (simp add: get_state_vector_def dict_get_def)

theorem get_state_vector_components_witness:
  "0 \<le> dict_get example_curr ''coverage_rate'' 0 \<and> 0 \<le> dict_get example_curr ''crash_count'' 0
   \<and> 0 \<le> dict_get example_curr ''exec_speed'' 0 \<and> 0 \<le> dict_get example_curr ''queue_size'' 0
   \<and> 0 \<le> dict_get example_curr ''unique_paths'' 0
   \<and> get_state_vector example_curr = [55, 3 / 100, 2, 3 / 250, 1 / 25]
   \<and> get_state_vector (example_curr(''queue_size'' := None)) = [55, 3 / 100, 2, 0, 1 / 25]
   \<and> list_all (\<lambda>x. 0 \<le> x) (get_state_vector example_curr)"
proof -
  have f: "0 \<le> dict_get example_curr ''coverage_rate'' 0 \<and> 0 \<le> dict_get example_curr ''crash_count'' 0
   \<and> 0 \<le> dict_get example_curr ''exec_speed'' 0 \<and> 0 \<le> dict_get example_curr ''queue_size'' 0
   \<and> 0 \<le> dict_get example_curr ''unique_paths'' 0"
    by (simp add: example_curr_def make_metrics_def dict_get_def)
  have v: "get_state_vector example_curr = [55, 3 / 100, 2, 3 / 250, 1 / 25]"
    "get_state_vector (example_curr(''queue_size'' := None)) = [55, 3 / 100, 2, 0, 1 / 25]"
    using get_state_vector_components [of example_curr]
      get_state_vector_components [of "example_curr(''queue_size'' := None)"]
    by (simp_all add: example_curr_def make_metrics_def dict_get_def)
  from get_state_vector_components [of example_curr] f
  have "list_all (\<lambda>x. 0 \<le> x) (get_state_vector example_curr)" by blast
  with f v show ?thesis by simp
qed

text \<open>
  The claim as written fails: a crash count of \<open>-100\<close> is encoded as \<open>-1\<close>, not
  clamped to 0.
\<close>

theorem get_state_vector_no_clamp:
  "get_state_vector [''crash_count'' \<mapsto> - 100] = [0, - 1, 0, 0, 0]"
  by (simp add: get_state_vector_def dict_get_def)

section \<open>The update\<close>

lemma length_returns_loop: "length (returns_loop g xs R acc) = length xs + length acc"
  by (induction g xs R acc rule: returns_loop.induct) (simp_all add: Let_def)

lemma length_compute_returns:
  "length (compute_returns g rs ds) = min (length rs) (length ds)"
  by (simp add: compute_returns_def length_returns_loop)

lemma epoch_loop_total:
  "epoch_loop step n bt p t = (p', Inr total_loss) \<Longrightarrow>
     total_loss = t + sum_list (epoch_losses step n bt p) \<and> length (epoch_losses step n bt p) = n"
proof (induction n arbitrary: p t)
  case 0
  then show ?case by simp
next
  case (Suc n)
  obtain q res where st: "step p bt = (q, res)" by (cases "step p bt")
  show ?case
  proof (cases res)
    case (Inl e)
    with Suc.prems st show ?thesis by simp
  next
    case (Inr loss)
    with Suc.prems st have "epoch_loop step n bt q (t + loss) = (p', Inr total_loss)" by simp
    from Suc.IH [OF this] show ?thesis using st Inr by simp
  qed
qed

lemma update_buffer_cases:
  "buffer (fst (update step a)) = buffer a \<or> buffer (fst (update step a)) = empty_buffer"
  by (simp add: update_def Let_def clear_buffer_def empty_buffer_def
      split: option.splits sum.splits prod.splits)

lemma buffer_ok_empty: "buffer_ok empty_buffer"
  by (simp add: buffer_ok_def empty_buffer_def)

text \<open>
  Claim C6.  With fewer transitions in the buffer than \<open>batch_size\<close>, \<^verbatim>\<open>update\<close> returns
  \<open>0.0\<close> and the agent (buffer, network parameters, optimizer state) is as before; a
  second call does the same.
\<close>

theorem update_below_batch_size:
  assumes "cfg_batch_size (config a) = Some bs" and "int (length (states (buffer a))) < bs"
  shows "update step a = (a, Inr 0) \<and> update step (fst (update step a)) = (a, Inr 0)"
  using assms by (simp add: update_def)

theorem update_below_batch_size_witness:
  "cfg_batch_size (config one_transition) = Some 2
   \<and> int (length (states (buffer one_transition))) < 2
   \<and> update example_step one_transition = (one_transition, Inr 0)"
  using update_below_batch_size [of one_transition 2 example_step]
  by (simp add: one_transition_def init_agent_def example_config_def store_transition_def
      empty_buffer_def)

text \<open>
  Claim C7, as the code has it.  For a well-formed buffer with at least \<open>batch_size\<close>
  transitions: when the number of epochs is positive and no gradient step raises,
  \<^verbatim>\<open>update\<close> leaves all six lists of the buffer empty and returns the sum of the losses
  of the epochs divided by their number, which is the configured number of epochs; when
  a gradient step raises, the exception leaves \<^verbatim>\<open>update\<close> and the buffer is as it was.
\<close>

theorem update_full_batch:
  assumes "cfg_batch_size (config a) = Some bs" and "bs \<le> int (length (states (buffer a)))"
    and "buffer_ok (buffer a)"
    and "returns = compute_returns (gamma a) (rewards (buffer a)) (dones (buffer a))"
    and "bt = make_batch (buffer a) returns (map2 (-) returns (vals (buffer a)))"
    and "losses = epoch_losses step (nat (epochs a)) bt (policy a)"
  shows "(0 < epochs a
          \<and> epoch_loop step (nat (epochs a)) bt (policy a) 0 = (p', Inr total_loss) \<longrightarrow>
            update step a =
              (a\<lparr>policy := p', buffer := empty_buffer\<rparr>,
               Inr (sum_list losses / real (length losses)))
          \<and> length losses = nat (epochs a)
          \<and> states (buffer (fst (update step a))) = []
          \<and> actions (buffer (fst (update step a))) = []
          \<and> rewards (buffer (fst (update step a))) = []
          \<and> log_probs (buffer (fst (update step a))) = []
          \<and> vals (buffer (fst (update step a))) = []
          \<and> dones (buffer (fst (update step a))) = [])
       \<and> (epoch_loop step (nat (epochs a)) bt (policy a) 0 = (q, Inl e) \<longrightarrow>
            update step a = (a\<lparr>policy := q\<rparr>, Inl e)
          \<and> buffer (fst (update step a)) = buffer a)"
proof (intro conjI impI)
  have len: "length returns = length (vals (buffer a))"
    using assms(3,4) by (simp add: length_compute_returns buffer_ok_def)
  then have sub: "tensor_sub returns (vals (buffer a)) = Inr (map2 (-) returns (vals (buffer a)))"
    by (simp add: tensor_sub_def)
  {
    assume ok: "0 < epochs a \<and> epoch_loop step (nat (epochs a)) bt (policy a) 0 = (p', Inr total_loss)"
    then have loop: "epoch_loop step (nat (epochs a)) bt (policy a) 0 = (p', Inr total_loss)"
      and pos: "0 < epochs a" by simp_all
    from epoch_loop_total [OF loop]
    have tot: "total_loss = sum_list losses" and n: "length losses = nat (epochs a)"
      using assms(6) by simp_all
    have "real (length losses) = real_of_int (epochs a)"
      using n pos by simp
    then have upd: "update step a =
        (a\<lparr>policy := p', buffer := empty_buffer\<rparr>, Inr (sum_list losses / real (length losses)))"
      using assms(1,2) pos loop sub tot
      by (simp add: update_def Let_def assms(4)[symmetric] assms(5)[symmetric]
          clear_buffer_def empty_buffer_def)
    show "update step a =
        (a\<lparr>policy := p', buffer := empty_buffer\<rparr>, Inr (sum_list losses / real (length losses)))"
      by (rule upd)
    show "length losses = nat (epochs a)" by (rule n)
    show "states (buffer (fst (update step a))) = []"
      "actions (buffer (fst (update step a))) = []"
      "rewards (buffer (fst (update step a))) = []"
      "log_probs (buffer (fst (update step a))) = []"
      "vals (buffer (fst (update step a))) = []"
      "dones (buffer (fst (update step a))) = []"
      unfolding upd by (simp_all add: empty_buffer_def)
  }
  {
    assume bad: "epoch_loop step (nat (epochs a)) bt (policy a) 0 = (q, Inl e)"
    then have upd: "update step a = (a\<lparr>policy := q\<rparr>, Inl e)"
      using assms(1,2) sub
      by (simp add: update_def Let_def assms(4)[symmetric] assms(5)[symmetric])
    show "update step a = (a\<lparr>policy := q\<rparr>, Inl e)" by (rule upd)
    show "buffer (fst (update step a)) = buffer a" unfolding upd by simp
  }
qed

theorem update_full_batch_witness:
  "cfg_batch_size (config two_transitions) = Some 2
   \<and> 2 \<le> int (length (states (buffer two_transitions)))
   \<and> buffer_ok (buffer two_transitions)
   \<and> update example_step two_transitions =
       (two_transitions\<lparr>policy := 4, buffer := empty_buffer\<rparr>, Inr (3 / 2))
   \<and> update failing_step two_transitions = (two_transitions, Inl ValueError)"
proof -
  let ?returns = "compute_returns (gamma two_transitions) (rewards (buffer two_transitions))
      (dones (buffer two_transitions))"
  let ?bt = "make_batch (buffer two_transitions) ?returns
      (map2 (-) ?returns (vals (buffer two_transitions)))"
  have cfg: "cfg_batch_size (config two_transitions) = Some 2"
    and len: "length (states (buffer two_transitions)) = 2"
    and ok: "buffer_ok (buffer two_transitions)"
    and ep: "epochs two_transitions = 4"
    and pol: "policy two_transitions = 0"
    and same: "two_transitions\<lparr>policy := 0\<rparr> = two_transitions"
    by (simp_all add: two_transitions_def one_transition_def init_agent_def
        example_config_def store_transition_def empty_buffer_def buffer_ok_def)
  have loop: "epoch_loop example_step (nat (epochs two_transitions)) ?bt
      (policy two_transitions) 0 = (4, Inr 6)"
    unfolding ep pol by (simp add: eval_nat_numeral example_step_def)
  have losses: "epoch_losses example_step 4 ?bt 0 = [0, 1, 2, 3]"
    by (simp add: eval_nat_numeral example_step_def)
  have bad: "epoch_loop failing_step (nat (epochs two_transitions)) ?bt
      (policy two_transitions) 0 = (0, Inl ValueError)"
    unfolding ep pol by (simp add: eval_nat_numeral failing_step_def)
  have len2: "2 \<le> int (length (states (buffer two_transitions)))" using len by simp
  have pos: "0 < epochs two_transitions" using ep by simp
  from update_full_batch [OF cfg len2 ok refl refl refl, of example_step 4 6] loop pos
  have good: "update example_step two_transitions =
       (two_transitions\<lparr>policy := 4, buffer := empty_buffer\<rparr>,
        Inr (sum_list (epoch_losses example_step (nat (epochs two_transitions)) ?bt
               (policy two_transitions))
             / real (length (epoch_losses example_step (nat (epochs two_transitions)) ?bt
               (policy two_transitions)))))"
    by blast
  from update_full_batch [OF cfg len2 ok refl refl refl, of failing_step _ _ 0 ValueError] bad
  have fails: "update failing_step two_transitions = (two_transitions\<lparr>policy := 0\<rparr>, Inl ValueError)"
    by blast
  show ?thesis
    using good fails cfg len2 ok by (simp add: ep pol losses same)
qed

text \<open>
  The claim as written fails on buffers that hold \<open>batch_size\<close> transitions.  With
  \<open>epochs = 0\<close> the buffer is emptied and the division by \<^verbatim>\<open>self.epochs\<close> raises
  \<^verbatim>\<open>ZeroDivisionError\<close>, so no mean is returned; with a gradient step that raises, the
  exception leaves \<^verbatim>\<open>update\<close> before \<^verbatim>\<open>clear_buffer\<close> and the buffer keeps its two
  transitions.
\<close>

theorem update_full_batch_fails:
  "cfg_batch_size (config zero_epochs) = Some 2
   \<and> length (states (buffer zero_epochs)) = 2
   \<and> buffer_ok (buffer zero_epochs)
   \<and> epochs zero_epochs = 0
   \<and> update example_step zero_epochs
       = (zero_epochs\<lparr>buffer := empty_buffer\<rparr>, Inl ZeroDivisionError)
   \<and> cfg_batch_size (config two_transitions) = Some 2
   \<and> length (states (buffer two_transitions)) = 2
   \<and> update failing_step two_transitions = (two_transitions, Inl ValueError)"
  by (simp add: zero_epochs_def two_transitions_def one_transition_def init_agent_def
      example_config_def store_transition_def empty_buffer_def buffer_ok_def update_def
      compute_returns_def tensor_sub_def clear_buffer_def failing_step_def Let_def
      eval_nat_numeral)

text \<open>
  Claim C9.  The six lists have one length after construction, after
  \<^verbatim>\<open>store_transition\<close> (which makes each one longer by one), after \<^verbatim>\<open>clear_buffer\<close>
  (which empties them) and after \<^verbatim>\<open>update\<close> (which leaves the buffer as it was or
  empties it).
\<close>

theorem buffer_lengths_invariant:
  "buffer_ok (buffer (init_agent cfg p0))
   \<and> (buffer_ok b \<longrightarrow>
        buffer_ok (store_transition b state action reward log_prob v done)
        \<and> length (states (store_transition b state action reward log_prob v done))
            = Suc (length (states b)))
   \<and> buffer_ok (clear_buffer b) \<and> states (clear_buffer b) = []
   \<and> (buffer (fst (update step a)) = buffer a \<or> buffer (fst (update step a)) = empty_buffer)
   \<and> (buffer_ok (buffer a) \<longrightarrow> buffer_ok (buffer (fst (update step a))))"
proof (intro conjI impI)
  show "buffer_ok (buffer (init_agent cfg p0))"
    by (simp add: init_agent_def buffer_ok_empty)
  show "buffer_ok (clear_buffer b)" and "states (clear_buffer b) = []"
    by (simp_all add: clear_buffer_def buffer_ok_def)
  show "buffer (fst (update step a)) = buffer a \<or> buffer (fst (update step a)) = empty_buffer"
    by (rule update_buffer_cases)
next
  assume "buffer_ok b"
  then show "buffer_ok (store_transition b state action reward log_prob v done)"
    and "length (states (store_transition b state action reward log_prob v done))
           = Suc (length (states b))"
    by (simp_all add: store_transition_def buffer_ok_def)
next
  assume "buffer_ok (buffer a)"
  then show "buffer_ok (buffer (fst (update step a)))"
    using update_buffer_cases [of step a] buffer_ok_empty by auto
qed

theorem buffer_lengths_invariant_witness:
  "buffer_ok (buffer one_transition)
   \<and> buffer_ok (store_transition (buffer one_transition) [0, 0, 0, 0, 0] 1 0 0 0 True)
   \<and> length (states (store_transition (buffer one_transition) [0, 0, 0, 0, 0] 1 0 0 0 True)) = 2
   \<and> buffer_ok (buffer two_transitions)
   \<and> buffer_ok (buffer (fst (update example_step two_transitions)))"
  using buffer_lengths_invariant [of example_config 0 "buffer one_transition"
      "[0, 0, 0, 0, 0]" 1 0 0 0 True example_step two_transitions]
  by (simp add: buffer_ok_def one_transition_def two_transitions_def init_agent_def
      store_transition_def empty_buffer_def)

section \<open>The final update\<close>

text \<open>
  Claim C1, at a buffer smaller than the batch size.  The loop stops with one stored
  transition and \<open>batch_size = 2\<close>: the final update reports the loss \<open>0.0\<close> and the
  agent is unchanged, so the transition is still in the buffer and no gradient step was
  taken, whatever the gradient step is.
\<close>

theorem final_update_below_batch_size:
  "length (states (buffer one_transition)) = 1
   \<and> cfg_batch_size (config one_transition) = Some 2
   \<and> final_update step one_transition = (one_transition, Inr (Some 0))"
  by (simp add: final_update_def update_def one_transition_def init_agent_def
      example_config_def store_transition_def empty_buffer_def)

section \<open>Standardized advantages\<close>














section \<open>A tick after a failed read\<close>

lemma get_stats_failed: "f = NoStatsFile \<or> f = ReadFails [] \<Longrightarrow> get_stats f = []"
  by (auto simp add: get_stats_def)

lemma get_state_vector_zero: "get_state_vector (make_metrics 0 0 0 0 0 0 0) = [0, 0, 0, 0, 0]"
  by (simp add: get_state_vector_def make_metrics_def dict_get_def)

text \<open>
  Claim C2, as the code has it.  When the statistics file is missing, or cannot be
  opened or read so that no line is obtained, \<^verbatim>\<open>get_metrics\<close> returns the all-zero
  snapshot and the tick goes on with it: the tick is the same as for any reading that
  gives the all-zero snapshot.  On a tick after the first, with the weights configured
  and the update interval not reached, the state \<open>[0, 0, 0, 0, 0]\<close> is encoded, an
  action is selected, the reward is computed against the previous metrics, the
  transition is stored, and the all-zero snapshot replaces the previous metrics.
\<close>

theorem tick_failed_read:
  assumes "f = NoStatsFile \<or> f = ReadFails []"
  shows "get_metrics py_int py_float runtime (get_stats f) = Inr (make_metrics 0 0 0 0 0 0 0)
       \<and> (get_metrics py_int py_float runtime' (get_stats f') = Inr (make_metrics 0 0 0 0 0 0 0)
            \<longrightarrow> tick select step py_int py_float f runtime elapsed duration ls
                = tick select step py_int py_float f' runtime' elapsed duration ls)
       \<and> (prev_metrics ls = Some prev
            \<and> select (policy (ppo ls)) [0, 0, 0, 0, 0] = (action, log_prob, v)
            \<and> compute_reward (config (ppo ls)) prev (make_metrics 0 0 0 0 0 0 0) = Inr reward
            \<and> cfg_update_interval (config (ppo ls)) = Some interval
            \<and> ppo_update_counter ls + 1 < interval
            \<longrightarrow> tick select step py_int py_float f runtime elapsed duration ls
                = (ls\<lparr>ppo := (ppo ls)\<lparr>buffer :=
                            store_transition (buffer (ppo ls)) [0, 0, 0, 0, 0] action reward
                              log_prob v (real_of_int duration \<le> elapsed)\<rparr>,
                       ppo_update_counter := ppo_update_counter ls + 1,
                       prev_metrics := Some (make_metrics 0 0 0 0 0 0 0)\<rparr>, None))"
proof -
  have st: "get_stats f = []"
    using assms by (rule get_stats_failed)
  have gm: "get_metrics py_int py_float runtime (get_stats f) = Inr (make_metrics 0 0 0 0 0 0 0)"
    by (simp add: st get_metrics_def)
  show ?thesis
    by (simp add: gm tick_def get_state_vector_zero Let_def)
qed

theorem tick_failed_read_witness:
  "tick example_select example_step no_conversion no_conversion (ReadFails []) 120 120 3600
       example_loop_state
     = (\<lparr>ppo = (init_agent example_config 0)\<lparr>buffer :=
                 store_transition empty_buffer [0, 0, 0, 0, 0] 3 (- 143 / 2) (- 1) 0 False\<rparr>,
         prev_metrics = Some (make_metrics 0 0 0 0 0 0 0),
         ppo_update_counter = 1\<rparr>, None)"
proof -
  have r: "compute_reward (config (ppo example_loop_state)) example_prev
            (make_metrics 0 0 0 0 0 0 0) = Inr (- 143 / 2)"
    by (simp add: example_loop_state_def init_agent_def example_config_def example_prev_def
        compute_reward_def dict_item_def dict_get_def make_metrics_def)
  show ?thesis
    using tick_failed_read [of "ReadFails []" no_conversion no_conversion 120 120 NoStatsFile
        example_select example_step 120 3600 example_loop_state example_prev 3 "- 1" 0
        "- 143 / 2" 10] r
    by (simp add: example_loop_state_def example_select_def init_agent_def example_config_def)
qed

text \<open>
  The claim as written fails: with the statistics file missing, the tick stores a
  transition (with reward \<open>-71.5\<close> here) and overwrites the previous metrics.
\<close>

theorem tick_failed_read_stores_transition:
  "get_stats NoStatsFile = []
   \<and> tick example_select example_step no_conversion no_conversion NoStatsFile 120 120 3600
       example_loop_state
     = (\<lparr>ppo = (init_agent example_config 0)\<lparr>buffer :=
                 store_transition empty_buffer [0, 0, 0, 0, 0] 3 (- 143 / 2) (- 1) 0 False\<rparr>,
         prev_metrics = Some (make_metrics 0 0 0 0 0 0 0),
         ppo_update_counter = 1\<rparr>, None)
   \<and> prev_metrics example_loop_state = Some (make_metrics 50 2 1000 10 300 5 60)
   \<and> states (buffer (ppo example_loop_state)) = []"
  by (simp add: get_stats_def tick_def get_metrics_def example_loop_state_def
      example_select_def init_agent_def example_config_def example_prev_def
      get_state_vector_def compute_reward_def dict_item_def dict_get_def make_metrics_def
      empty_buffer_def Let_def)

end
